theory Spec2Isabelle
  imports Complex_Main "HOL-Library.Word" "HOL-Library.Multiset"
begin

section \<open>The MUSIC event output proxy (music\_event\_out\_proxy.h)\<close>

subsection \<open>Types of the enclosing framework\<close>

text \<open>
  \<^verbatim>\<open>port\<close> and \<^verbatim>\<open>long_t\<close> are typedefs of nest.h, which is not among the sources
  read here (NEST declares both as the platform's \<^verbatim>\<open>long\<close>). Their widths are type
  parameters \<open>'p\<close> and \<open>'l\<close> of the model: a \<^verbatim>\<open>port\<close> is a \<open>'p word\<close> read as a signed
  number. A C++ \<^verbatim>\<open>int\<close> is a signed 32-bit word, and a \<^verbatim>\<open>MUSIC::GlobalIndex\<close> wraps
  one \<^verbatim>\<open>int\<close>.
\<close>

type_synonym int_t = "32 word"
type_synonym GlobalIndex = "32 word"

text \<open>
  The exceptions. \<^verbatim>\<open>MUSICPortAlreadyPublished(get_name(), P_.port_name_)\<close> carries
  the model's name and the port's name. \<open>UnconfiguredPort\<close> is the error kind of spec
  section 7 for an event delivered or a flush asked before publish.
\<close>

datatype error =
    MUSICPortAlreadyPublished string string
  | UnconfiguredPort

text \<open>
  Modelled from the spec: the fields of \<^verbatim>\<open>SpikeEvent\<close> (event.h is not among the
  sources). An event delivered to the proxy carries the local channel position of its
  sender, a timestamp and a payload (spec section 4.2,
  \<^verbatim>\<open>push(local_channel_position, timestamp, payload)\<close>).
\<close>

record 'a SpikeEvent =
  rport :: nat
  stamp :: int
  payload :: 'a

subsection \<open>The members of the class\<close>

text \<open>
  Isabelle admits no name that ends with an underscore, so each member is written
  without the one it ends with in the header: \<open>published\<close> is \<^verbatim>\<open>published_\<close>,
  \<open>index_map\<close> is \<^verbatim>\<open>index_map_\<close>, \<open>P\<close>, \<open>S\<close> and \<open>V\<close> are \<^verbatim>\<open>P_\<close>, \<^verbatim>\<open>S_\<close> and \<^verbatim>\<open>V_\<close>.
\<close>

record Parameters =
  port_name :: string

record State =
  published :: bool
  port_width :: int_t

text \<open>
  \<^verbatim>\<open>MP_\<close> points to the MUSIC port object and is an address here. \<^verbatim>\<open>music_perm_ind_\<close>
  points to the permutation index, a table from local positions to global channel
  numbers: \<open>None\<close> while the pointer is unset.
\<close>

record Variables =
  MP :: "nat option"
  index_map :: "GlobalIndex list"
  music_perm_ind :: "GlobalIndex list option"

text \<open>
  The proxy object: \<open>node_name\<close> is what \<^verbatim>\<open>Node::get_name()\<close> returns, then the three
  members \<^verbatim>\<open>P_\<close>, \<^verbatim>\<open>S_\<close>, \<^verbatim>\<open>V_\<close>. \<open>buffer\<close> is the Event Buffer of spec section 4.2
  (kept inside the MUSIC port in the program): the events delivered since the last
  drain, oldest first.
\<close>

record 'a music_event_out_proxy =
  node_name :: string
  P :: Parameters
  S :: State
  V :: Variables
  buffer :: "'a SpikeEvent list"

subsection \<open>connect\_sender and update, from the header\<close>

text \<open>\<^verbatim>\<open>static_cast<int>(receptor_type)\<close>: the value modulo \<open>2 ^ 32\<close>, read as signed.\<close>

definition static_cast_int :: "'p::len word \<Rightarrow> int_t" where
  "static_cast_int receptor_type = scast receptor_type"

text \<open>
  A call returns its outcome (the exception thrown, or the value returned) and the
  object after the call.
  \<^verbatim>\<open>
  if (!S_.published_)
    V_.index_map_.push_back(static_cast<int>(receptor_type));
  else
    throw MUSICPortAlreadyPublished(get_name(), P_.port_name_);
  return receptor_type;
  \<close>
\<close>

definition connect_sender ::
  "'a SpikeEvent \<Rightarrow> 'p::len word \<Rightarrow> 'a music_event_out_proxy
     \<Rightarrow> (error + 'p word) \<times> 'a music_event_out_proxy" where
  "connect_sender e receptor_type n =
     (if \<not> published (S n)
      then (Inr receptor_type,
            n\<lparr>V := (V n)\<lparr>index_map :=
                   index_map (V n) @ [static_cast_int receptor_type]\<rparr>\<rparr>)
      else (Inl (MUSICPortAlreadyPublished (node_name n) (port_name (P n))), n))"

text \<open>\<^verbatim>\<open>void update(Time const &, const long_t, const long_t) {}\<close>\<close>

definition update ::
  "'t \<Rightarrow> 'l::len word \<Rightarrow> 'l word \<Rightarrow> 'a music_event_out_proxy \<Rightarrow> 'a music_event_out_proxy" where
  "update t from_step to_step n = n"

section \<open>The parts of the port that the header only declares\<close>

text \<open>
  Modelled from the spec: the port once it is constructed and configured, which the
  constructors, \<^verbatim>\<open>State_()\<close>, \<^verbatim>\<open>Parameters_()\<close> and \<^verbatim>\<open>set_status\<close> do outside the
  header. Spec sections 3, 4.4 and 6: the name and the width are set before any
  connection is made; the port is not published, nothing is registered, nothing is
  buffered.
\<close>

definition configure :: "string \<Rightarrow> string \<Rightarrow> int_t \<Rightarrow> 'a music_event_out_proxy" where
  "configure model_name name width =
     \<lparr>node_name = model_name,
      P = \<lparr>port_name = name\<rparr>,
      S = \<lparr>published = False, port_width = width\<rparr>,
      V = \<lparr>MP = None, index_map = [], music_perm_ind = None\<rparr>,
      buffer = []\<rparr>"

text \<open>
  Modelled from the spec: publish, which \<^verbatim>\<open>calibrate()\<close> does outside the header.
  Spec section 4.1: publish moves the published flag from false to true exactly once,
  and a second call fails with PortAlreadyPublished. Spec sections 3 and 4.3: the
  permutation table is built once, at publish time, from the index map, and maps a
  local channel position to its global channel number.
\<close>

definition publish ::
  "'a music_event_out_proxy \<Rightarrow> (error + unit) \<times> 'a music_event_out_proxy" where
  "publish n =
     (if published (S n)
      then (Inl (MUSICPortAlreadyPublished (node_name n) (port_name (P n))), n)
      else (Inr (),
            n\<lparr>S := (S n)\<lparr>published := True\<rparr>,
              V := (V n)\<lparr>music_perm_ind := Some (index_map (V n))\<rparr>\<rparr>))"

text \<open>
  Modelled from the spec: the body of \<^verbatim>\<open>handle(SpikeEvent &)\<close>, declared in the header
  and defined outside it. Spec section 4.2 (push): valid only when the port is
  published; appends the event to the buffer. Spec section 7: before publish it fails
  with UnconfiguredPort.
\<close>

definition handle ::
  "'a SpikeEvent \<Rightarrow> 'a music_event_out_proxy \<Rightarrow> (error + unit) \<times> 'a music_event_out_proxy" where
  "handle e n =
     (if published (S n)
      then (Inr (), n\<lparr>buffer := buffer n @ [e]\<rparr>)
      else (Inl UnconfiguredPort, n))"

text \<open>
  Modelled from the spec: drain, of which the sources have nothing. Spec section 4.2:
  removes and returns all buffered events, leaving the buffer empty.
\<close>

definition drain ::
  "'a music_event_out_proxy \<Rightarrow> 'a SpikeEvent list \<times> 'a music_event_out_proxy" where
  "drain n = (buffer n, n\<lparr>buffer := []\<rparr>)"

subsection \<open>Sequences of calls\<close>

text \<open>
  The calls the framework makes on one proxy, and what a call gives back. The types
  \<open>'port\<close> and \<open>'long\<close> are those of \<^verbatim>\<open>port\<close> and \<^verbatim>\<open>long_t\<close>. A caller that catches an
  exception goes on with the object as the throwing call left it.
\<close>

datatype ('a, 'port, 't, 'long) call =
    Connect_sender "'a SpikeEvent" 'port
  | Publish
  | Handle "'a SpikeEvent"
  | Drain
  | Update 't 'long 'long

datatype ('a, 'port) reply =
    Port 'port
  | Done
  | Events "'a SpikeEvent list"

fun exec ::
  "('a, 'p::len word, 't, 'l::len word) call \<Rightarrow> 'a music_event_out_proxy
     \<Rightarrow> (error + ('a, 'p word) reply) \<times> 'a music_event_out_proxy" where
  "exec (Connect_sender e receptor_type) n =
     (case connect_sender e receptor_type n of (r, n') \<Rightarrow> (map_sum id Port r, n'))"
| "exec Publish n = (case publish n of (r, n') \<Rightarrow> (map_sum id (\<lambda>u. Done) r, n'))"
| "exec (Handle e) n = (case handle e n of (r, n') \<Rightarrow> (map_sum id (\<lambda>u. Done) r, n'))"
| "exec Drain n = (case drain n of (evs, n') \<Rightarrow> (Inr (Events evs), n'))"
| "exec (Update t from_step to_step) n = (Inr Done, update t from_step to_step n)"

fun run ::
  "('a, 'p::len word, 't, 'l::len word) call list \<Rightarrow> 'a music_event_out_proxy
     \<Rightarrow> (error + ('a, 'p word) reply) list \<times> 'a music_event_out_proxy" where
  "run [] n = ([], n)"
| "run (c # cs) n =
     (case exec c n of (r, n') \<Rightarrow> (case run cs n' of (rs, n'') \<Rightarrow> (r # rs, n'')))"

text \<open>The events of the deliveries in a sequence of calls, in call order.\<close>

fun pushed :: "('a, 'port, 't, 'long) call list \<Rightarrow> 'a SpikeEvent list" where
  "pushed [] = []"
| "pushed (Handle e # cs) = e # pushed cs"
| "pushed (c # cs) = pushed cs"

text \<open>The number of connect\_sender calls in a sequence, up to its first publish.\<close>

fun connects_before_publish :: "('a, 'port, 't, 'long) call list \<Rightarrow> nat" where
  "connects_before_publish [] = 0"
| "connects_before_publish (Publish # cs) = 0"
| "connects_before_publish (Connect_sender e r # cs) = Suc (connects_before_publish cs)"
| "connects_before_publish (c # cs) = connects_before_publish cs"

text \<open>A \<^verbatim>\<open>port\<close> value that an \<^verbatim>\<open>int\<close> can hold.\<close>

definition fits_int :: "'p::len word \<Rightarrow> bool" where
  "fits_int receptor_type \<longleftrightarrow> - (2 ^ 31) \<le> sint receptor_type \<and> sint receptor_type < 2 ^ 31"

subsection \<open>The collective flush\<close>










section \<open>The archiving node of the comparison tests (archiving\_node.h)\<close>

text \<open>
  \<^verbatim>\<open>double_t\<close> is declared in a header that is not among the sources; the values a
  C++ \<^verbatim>\<open>double\<close> can hold are finite numbers, the two infinities and not-a-number.
  The functions below only store and return such a value.
\<close>

datatype double_t = Finite real | PlusInfinity | MinusInfinity | NaN

text \<open>\<^verbatim>\<open>Node\<close> holds the pointer \<^verbatim>\<open>net_\<close>; \<^verbatim>\<open>Archiving_Node\<close> adds \<^verbatim>\<open>last_spike_\<close>.\<close>

record Node =
  net :: nat

record Archiving_Node = Node +
  last_spike :: double_t

text \<open>
  \<^verbatim>\<open>Archiving_Node() : last_spike_(-1.0) {}\<close> after \<^verbatim>\<open>Node() : net_(new Network()) {}\<close>;
  the address of the new network is the argument.
\<close>

definition Archiving_Node_new :: "nat \<Rightarrow> Archiving_Node" where
  "Archiving_Node_new new_Network = \<lparr>net = new_Network, last_spike = Finite (- 1.0)\<rparr>"

text \<open>
  \<^verbatim>\<open>Archiving_Node(const Archiving_Node& node) : Node(node), last_spike_(node.last_spike_) {}\<close>
  with \<^verbatim>\<open>Node(const Node& node) : net_(node.net_) {}\<close>
\<close>

definition Archiving_Node_copy :: "Archiving_Node \<Rightarrow> Archiving_Node" where
  "Archiving_Node_copy node = \<lparr>net = net node, last_spike = last_spike node\<rparr>"

definition get_spiketime_ms :: "Archiving_Node \<Rightarrow> double_t" where
  "get_spiketime_ms node = last_spike node"

definition set_spiketime_ms :: "double_t \<Rightarrow> Archiving_Node \<Rightarrow> Archiving_Node" where
  "set_spiketime_ms st node = node\<lparr>last_spike := st\<rparr>"

section \<open>Auxiliary facts\<close>

lemma snd_run_Cons: "snd (run (c # cs) n) = snd (run cs (snd (exec c n)))"
  by (simp split: prod.splits)

lemma fst_run_Cons: "fst (run (c # cs) n) = fst (exec c n) # fst (run cs (snd (exec c n)))"
  by (simp split: prod.splits)

lemmas call_defs = connect_sender_def publish_def handle_def drain_def update_def

lemma exec_published_mono: "published (S n) \<Longrightarrow> published (S (snd (exec c n)))"
  by (cases c) (simp_all add: call_defs)

lemma exec_index_map_published:
  "published (S n) \<Longrightarrow> index_map (V (snd (exec c n))) = index_map (V n)"
  by (cases c) (simp_all add: call_defs)

lemma exec_port_width: "port_width (S (snd (exec c n))) = port_width (S n)"
  by (cases c) (simp_all add: call_defs)

lemma exec_node_name: "node_name (snd (exec c n)) = node_name n"
  by (cases c) (simp_all add: call_defs)

lemma exec_port_name: "port_name (P (snd (exec c n))) = port_name (P n)"
  by (cases c) (simp_all add: call_defs)

lemma run_published_mono: "published (S n) \<Longrightarrow> published (S (snd (run cs n)))"
  by (induction cs arbitrary: n) (simp_all add: snd_run_Cons exec_published_mono del: run.simps(2))

lemma run_index_map_published:
  "published (S n) \<Longrightarrow> index_map (V (snd (run cs n))) = index_map (V n)"
  by (induction cs arbitrary: n)
    (simp_all add: snd_run_Cons exec_published_mono exec_index_map_published del: run.simps(2))

lemma run_port_width: "port_width (S (snd (run cs n))) = port_width (S n)"
  by (induction cs arbitrary: n) (simp_all add: snd_run_Cons exec_port_width del: run.simps(2))

lemma run_node_name: "node_name (snd (run cs n)) = node_name n"
  by (induction cs arbitrary: n) (simp_all add: snd_run_Cons exec_node_name del: run.simps(2))

lemma run_port_name: "port_name (P (snd (run cs n))) = port_name (P n)"
  by (induction cs arbitrary: n) (simp_all add: snd_run_Cons exec_port_name del: run.simps(2))




lemma run_length_index_map:
  "\<not> published (S n) \<Longrightarrow>
   length (index_map (V (snd (run cs n)))) = length (index_map (V n)) + connects_before_publish cs"
proof (induction cs arbitrary: n)
  case Nil
  then show ?case by simp
next
  case (Cons c cs)
  show ?case
  proof (cases c)
    case (Connect_sender e r)
    with Cons show ?thesis
      by (simp add: snd_run_Cons connect_sender_def del: run.simps(2))
  next
    case Publish
    with Cons.prems show ?thesis
      by (simp add: snd_run_Cons publish_def run_index_map_published del: run.simps(2))
  next
    case (Handle e)
    with Cons show ?thesis
      by (simp add: snd_run_Cons handle_def del: run.simps(2))
  next
    case Drain
    with Cons show ?thesis
      by (simp add: snd_run_Cons drain_def del: run.simps(2))
  next
    case (Update t a b)
    with Cons show ?thesis
      by (simp add: snd_run_Cons update_def del: run.simps(2))
  qed
qed

lemma run_buffer:
  "published (S n) \<Longrightarrow> Drain \<notin> set cs \<Longrightarrow> buffer (snd (run cs n)) = buffer n @ pushed cs"
proof (induction cs arbitrary: n)
  case Nil
  then show ?case by simp
next
  case (Cons c cs)
  then have "published (S (snd (exec c n)))" and "Drain \<notin> set cs" and "c \<noteq> Drain"
    by (auto simp: exec_published_mono)
  with Cons.IH [of "snd (exec c n)"] Cons.prems(1) show ?case
    by (cases c) (simp_all add: snd_run_Cons call_defs del: run.simps(2))
qed

lemma run_pushes_replies:
  "published (S n) \<Longrightarrow> fst (run (map Handle es) n) = map (\<lambda>e. Inr Done) es"
proof (induction es arbitrary: n)
  case Nil
  then show ?case by simp
next
  case (Cons e es)
  from Cons.prems have "published (S (snd (exec (Handle e) n)))"
    by (rule exec_published_mono)
  from Cons.IH [OF this] Cons.prems show ?case
    by (simp add: fst_run_Cons handle_def del: run.simps(2))
qed

lemma sint_static_cast_int: "sint (static_cast_int r) = signed_take_bit 31 (sint r)"
proof -
  have "sint (word_of_int (sint r) :: 32 word) = signed_take_bit 31 (sint r)"
    by (simp only: sint_sbintrunc') simp
  then show ?thesis
    by (simp only: static_cast_int_def scast_eq)
qed

lemma sint_static_cast_int_fits: "fits_int r \<Longrightarrow> sint (static_cast_int r) = sint r"
  by (simp only: sint_static_cast_int fits_int_def signed_take_bit_int_eq_self_iff)

text \<open>
  Where every channel number supplied fits in an \<^verbatim>\<open>int\<close>, every connect\_sender call
  on an unpublished port succeeds and the index map grows by exactly the numbers
  supplied, in call order, duplicates included.
\<close>

lemma connect_sender_sequence_in_range:
  "\<not> published (S n) \<Longrightarrow> cs = map (\<lambda>(e, r). Connect_sender e r) ers \<Longrightarrow>
   \<forall>(e, r) \<in> set ers. fits_int r \<Longrightarrow>
   fst (run cs n) = map (\<lambda>(e, r). Inr (Port r)) ers
   \<and> map sint (index_map (V (snd (run cs n))))
       = map sint (index_map (V n)) @ map (\<lambda>(e, r). sint r) ers
   \<and> \<not> published (S (snd (run cs n)))"
proof (induction ers arbitrary: n cs)
  case Nil
  then show ?case by simp
next
  case (Cons er ers)
  obtain e r where er: "er = (e, r)" by (cases er)
  obtain cs' where cs: "cs = Connect_sender e r # cs'"
    and cs': "cs' = map (\<lambda>(e, r). Connect_sender e r) ers"
    using Cons.prems(2) er by simp
  from Cons.prems(3) er have f: "fits_int r" and fs: "\<forall>(e, r) \<in> set ers. fits_int r"
    by simp_all
  from Cons.prems(1) have n': "\<not> published (S (snd (connect_sender e r n)))"
    and im: "index_map (V (snd (connect_sender e r n))) = index_map (V n) @ [static_cast_int r]"
    and rep: "fst (connect_sender e r n) = Inr r"
    by (simp_all add: connect_sender_def)
  from Cons.IH [OF n' cs' fs] im rep sint_static_cast_int_fits [OF f] show ?case
    by (simp add: er cs fst_run_Cons snd_run_Cons split_beta del: run.simps(2))
qed

lemma run_unpublished:
  "\<not> published (S n) \<Longrightarrow> Publish \<notin> set cs \<Longrightarrow> \<not> published (S (snd (run cs n)))"
proof (induction cs arbitrary: n)
  case Nil
  then show ?case by simp
next
  case (Cons c cs)
  then have "\<not> published (S (snd (exec c n)))"
    by (cases c) (simp_all add: call_defs)
  with Cons show ?case
    by (simp add: snd_run_Cons del: run.simps(2))
qed


lemma run_buffer_mem:
  "e \<in> set (buffer n) \<Longrightarrow> Drain \<notin> set cs \<Longrightarrow> e \<in> set (buffer (snd (run cs n)))"
proof (induction cs arbitrary: n)
  case Nil
  then show ?case by simp
next
  case (Cons c cs)
  then have "e \<in> set (buffer (snd (exec c n)))"
    by (cases c) (simp_all add: call_defs)
  with Cons show ?case
    by (simp add: snd_run_Cons del: run.simps(2))
qed








section \<open>Properties\<close>

text \<open>
  C1: in every state of the port whose published flag is true, connect\_sender throws
  MUSICPortAlreadyPublished (with the node's and the port's name) and leaves the object
  as it was; in particular the index map has the same length and the same contents.
\<close>

theorem connect_sender_published:
  assumes "published (S n)"
  shows "fst (connect_sender e receptor_type n)
           = Inl (MUSICPortAlreadyPublished (node_name n) (port_name (P n)))
         \<and> snd (connect_sender e receptor_type n) = n
         \<and> index_map (V (snd (connect_sender e receptor_type n))) = index_map (V n)
         \<and> length (index_map (V (snd (connect_sender e receptor_type n))))
             = length (index_map (V n))"
  using assms by (simp add: connect_sender_def)

theorem connect_sender_published_witness:
  "published (S (snd (publish (configure ''music_event_out_proxy'' ''spikes_out'' 4
      :: unit music_event_out_proxy))))
   \<and> fst (connect_sender \<lparr>rport = 0, stamp = 0, payload = ()\<rparr> (5 :: 64 word)
        (snd (publish (configure ''music_event_out_proxy'' ''spikes_out'' 4))))
       = Inl (MUSICPortAlreadyPublished ''music_event_out_proxy'' ''spikes_out'')
   \<and> length (index_map (V (snd (connect_sender \<lparr>rport = 0, stamp = 0, payload = ()\<rparr>
        (5 :: 64 word) (snd (publish (configure ''music_event_out_proxy'' ''spikes_out'' 4)))))))
       = length (index_map (V (snd (publish (configure ''music_event_out_proxy'' ''spikes_out'' 4
           :: unit music_event_out_proxy)))))"
proof -
  let ?n = "snd (publish (configure ''music_event_out_proxy'' ''spikes_out'' 4
      :: unit music_event_out_proxy))"
  have p: "published (S ?n)"
    by (simp add: configure_def publish_def)
  have nm: "node_name ?n = ''music_event_out_proxy''" "port_name (P ?n) = ''spikes_out''"
    by (simp_all add: configure_def publish_def)
  from connect_sender_published [OF p, of "\<lparr>rport = 0, stamp = 0, payload = ()\<rparr>" "5 :: 64 word"]
  show ?thesis using p by (simp only: nm)
qed

text \<open>
  C2: every connect\_sender call before publish succeeds, and the index map should then
  hold exactly the channel numbers supplied, in call order; the header's comment says
  the same (receptor\_type i is mapped to channel i). The call stores
  \<^verbatim>\<open>static_cast<int>(receptor_type)\<close>: where \<^verbatim>\<open>port\<close> has 64 bits (it is the platform's
  \<^verbatim>\<open>long\<close>), the call with channel number 4294967296 succeeds and returns it, and the
  index map holds channel 0, not the number supplied.
\<close>

theorem connect_sender_stores_truncated_channel:
  "fst (run
      ([Connect_sender \<lparr>rport = 0, stamp = 0, payload = ()\<rparr> 4294967296]
        :: (unit, 64 word, nat, 64 word) call list)
      (configure ''music_event_out_proxy'' ''spikes_out'' 4)) = [Inr (Port 4294967296)]
   \<and> map sint (index_map (V (snd (run
      ([Connect_sender \<lparr>rport = 0, stamp = 0, payload = ()\<rparr> 4294967296]
        :: (unit, 64 word, nat, 64 word) call list)
      (configure ''music_event_out_proxy'' ''spikes_out'' 4))))) = [0]
   \<and> map sint (index_map (V (snd (run
      ([Connect_sender \<lparr>rport = 0, stamp = 0, payload = ()\<rparr> 4294967296]
        :: (unit, 64 word, nat, 64 word) call list)
      (configure ''music_event_out_proxy'' ''spikes_out'' 4)))))
     \<noteq> map sint [4294967296 :: 64 word]"
  by (simp add: configure_def connect_sender_def static_cast_int_def)

text \<open>
  C3: on a port that is not published, whatever calls but publish came before (any
  number of registrations among them), publish succeeds and sets the published flag;
  on a published port, after any further calls, the flag is still true and publish
  fails with MUSICPortAlreadyPublished, leaving the port as it was.
\<close>

theorem publish_once:
  "(\<not> published (S n) \<and> Publish \<notin> set cs \<longrightarrow>
      \<not> published (S (snd (run cs n)))
      \<and> fst (publish (snd (run cs n))) = Inr ()
      \<and> published (S (snd (publish (snd (run cs n))))))
   \<and> (published (S n) \<longrightarrow>
      published (S (snd (run cs n)))
      \<and> publish (snd (run cs n))
          = (Inl (MUSICPortAlreadyPublished (node_name n) (port_name (P n))), snd (run cs n)))"
proof (intro conjI impI)
  assume a: "\<not> published (S n) \<and> Publish \<notin> set cs"
  then show u: "\<not> published (S (snd (run cs n)))"
    by (simp add: run_unpublished)
  then show "fst (publish (snd (run cs n))) = Inr ()"
    and "published (S (snd (publish (snd (run cs n)))))"
    by (simp_all add: publish_def)
next
  assume "published (S n)"
  then show p: "published (S (snd (run cs n)))"
    by (rule run_published_mono)
  then show "publish (snd (run cs n))
      = (Inl (MUSICPortAlreadyPublished (node_name n) (port_name (P n))), snd (run cs n))"
    by (simp add: publish_def run_node_name run_port_name)
qed


theorem publish_once_witness:
  "fst (publish (snd (run
      ([Connect_sender \<lparr>rport = 0, stamp = 0, payload = ()\<rparr> 2,
        Connect_sender \<lparr>rport = 0, stamp = 0, payload = ()\<rparr> 0]
          :: (unit, 64 word, nat, 64 word) call list)
      (configure ''music_event_out_proxy'' ''spikes_out'' 4)))) = Inr ()
   \<and> fst (publish (snd (run
      ([Handle \<lparr>rport = 0, stamp = 10, payload = ()\<rparr>] :: (unit, 64 word, nat, 64 word) call list)
      (snd (publish (configure ''music_event_out_proxy'' ''spikes_out'' 4))))))
       = Inl (MUSICPortAlreadyPublished ''music_event_out_proxy'' ''spikes_out'')"
proof -
  let ?n = "configure ''music_event_out_proxy'' ''spikes_out'' 4 :: unit music_event_out_proxy"
  let ?cs = "[Connect_sender \<lparr>rport = 0, stamp = 0, payload = ()\<rparr> 2,
        Connect_sender \<lparr>rport = 0, stamp = 0, payload = ()\<rparr> 0]
          :: (unit, 64 word, nat, 64 word) call list"
  let ?cs' = "[Handle \<lparr>rport = 0, stamp = 10, payload = ()\<rparr>] :: (unit, 64 word, nat, 64 word) call list"
  have u: "\<not> published (S ?n) \<and> Publish \<notin> set ?cs"
    by (simp add: configure_def)
  have p: "published (S (snd (publish ?n)))"
    by (simp add: configure_def publish_def)
  have nm: "node_name (snd (publish ?n)) = ''music_event_out_proxy''"
    "port_name (P (snd (publish ?n))) = ''spikes_out''"
    by (simp_all add: configure_def publish_def)
  from publish_once [of ?n ?cs] u have "fst (publish (snd (run ?cs ?n))) = Inr ()"
    by blast
  moreover from publish_once [of "snd (publish ?n)" ?cs'] p
  have "publish (snd (run ?cs' (snd (publish ?n))))
      = (Inl (MUSICPortAlreadyPublished (node_name (snd (publish ?n)))
           (port_name (P (snd (publish ?n))))), snd (run ?cs' (snd (publish ?n))))"
    by blast
  then have "fst (publish (snd (run ?cs' (snd (publish ?n)))))
      = Inl (MUSICPortAlreadyPublished ''music_event_out_proxy'' ''spikes_out'')"
    by (simp only: nm fst_conv)
  ultimately show ?thesis by blast
qed



text \<open>
  C5, as the header has it: connect\_sender never reads the port width. A port of
  width 1 on which two senders register has two channel assignments.
\<close>

theorem width_not_enforced_counterexample:
  "length (index_map (V (snd (run
        ([Connect_sender \<lparr>rport = 0, stamp = 0, payload = ()\<rparr> 0,
          Connect_sender \<lparr>rport = 0, stamp = 0, payload = ()\<rparr> 1]
           :: (unit, 64 word, nat, 64 word) call list)
        (configure ''music_event_out_proxy'' ''spikes_out'' 1))))) = 2
   \<and> sint (port_width (S (snd (run
        ([Connect_sender \<lparr>rport = 0, stamp = 0, payload = ()\<rparr> 0,
          Connect_sender \<lparr>rport = 0, stamp = 0, payload = ()\<rparr> 1]
           :: (unit, 64 word, nat, 64 word) call list)
        (configure ''music_event_out_proxy'' ''spikes_out'' 1 :: unit music_event_out_proxy))))) = 1
   \<and> \<not> int (length (index_map (V (snd (run
        ([Connect_sender \<lparr>rport = 0, stamp = 0, payload = ()\<rparr> 0,
          Connect_sender \<lparr>rport = 0, stamp = 0, payload = ()\<rparr> 1]
           :: (unit, 64 word, nat, 64 word) call list)
        (configure ''music_event_out_proxy'' ''spikes_out'' 1))))))
     \<le> sint (port_width (S (snd (run
        ([Connect_sender \<lparr>rport = 0, stamp = 0, payload = ()\<rparr> 0,
          Connect_sender \<lparr>rport = 0, stamp = 0, payload = ()\<rparr> 1]
           :: (unit, 64 word, nat, 64 word) call list)
        (configure ''music_event_out_proxy'' ''spikes_out'' 1 :: unit music_event_out_proxy)))))"
  by (simp add: configure_def connect_sender_def)

text \<open>
  C5, amended: in every state reached from a configured port, the width is the
  configured one and the number of channel assignments is the number of
  connect\_sender calls made before the first publish, whatever the width; once the
  port is published, it stays published and no sequence of calls changes the index map.
\<close>

theorem index_map_frozen_once_published:
  assumes "n = snd (run cs (configure model_name name width))"
  shows "port_width (S n) = width
   \<and> length (index_map (V n)) = connects_before_publish cs
   \<and> (published (S n) \<longrightarrow>
        published (S (snd (run cs' n))) \<and> index_map (V (snd (run cs' n))) = index_map (V n))"
proof (intro conjI impI)
  show "port_width (S n) = width"
    by (simp add: assms run_port_width) (simp add: configure_def)
  have "\<not> published (S (configure model_name name width :: 'a music_event_out_proxy))"
    and "index_map (V (configure model_name name width :: 'a music_event_out_proxy)) = []"
    by (simp_all add: configure_def)
  then show "length (index_map (V n)) = connects_before_publish cs"
    by (simp add: assms run_length_index_map)
  assume p: "published (S n)"
  then show "published (S (snd (run cs' n)))"
    by (rule run_published_mono)
  from p show "index_map (V (snd (run cs' n))) = index_map (V n)"
    by (rule run_index_map_published)
qed

theorem index_map_frozen_once_published_witness:
  "published (S (snd (run
      ([Connect_sender \<lparr>rport = 0, stamp = 0, payload = ()\<rparr> 2, Publish,
        Connect_sender \<lparr>rport = 0, stamp = 0, payload = ()\<rparr> 5]
          :: (unit, 64 word, nat, 64 word) call list)
      (configure ''music_event_out_proxy'' ''spikes_out'' 4))))
   \<and> index_map (V (snd (run
      ([Connect_sender \<lparr>rport = 0, stamp = 0, payload = ()\<rparr> 7, Drain]
          :: (unit, 64 word, nat, 64 word) call list)
      (snd (run
      ([Connect_sender \<lparr>rport = 0, stamp = 0, payload = ()\<rparr> 2, Publish,
        Connect_sender \<lparr>rport = 0, stamp = 0, payload = ()\<rparr> 5]
          :: (unit, 64 word, nat, 64 word) call list)
      (configure ''music_event_out_proxy'' ''spikes_out'' 4)))))) = [2]"
proof -
  let ?n = "configure ''music_event_out_proxy'' ''spikes_out'' 4 :: unit music_event_out_proxy"
  let ?cs = "[Connect_sender \<lparr>rport = 0, stamp = 0, payload = ()\<rparr> 2, Publish,
        Connect_sender \<lparr>rport = 0, stamp = 0, payload = ()\<rparr> 5]
          :: (unit, 64 word, nat, 64 word) call list"
  let ?cs' = "[Connect_sender \<lparr>rport = 0, stamp = 0, payload = ()\<rparr> 7, Drain]
          :: (unit, 64 word, nat, 64 word) call list"
  have p: "published (S (snd (run ?cs ?n)))"
    by (simp add: configure_def connect_sender_def publish_def)
  have i: "index_map (V (snd (run ?cs ?n))) = [2]"
    by (simp add: configure_def connect_sender_def publish_def static_cast_int_def)
  from index_map_frozen_once_published [OF refl, of ?cs "''music_event_out_proxy''" "''spikes_out''" 4 ?cs'] p
  have "index_map (V (snd (run ?cs' (snd (run ?cs ?n))))) = index_map (V (snd (run ?cs ?n)))"
    by blast
  with p i show ?thesis by (simp only:) 
qed

text \<open>
  C6: on an unpublished port connect\_sender succeeds and returns the channel number
  the caller chose, unchanged.
\<close>

theorem connect_sender_returns_receptor_type:
  assumes "\<not> published (S n)"
  shows "fst (connect_sender e receptor_type n) = Inr receptor_type"
  using assms by (simp add: connect_sender_def)

theorem connect_sender_returns_receptor_type_witness:
  "\<not> published (S (configure ''music_event_out_proxy'' ''spikes_out'' 4
      :: unit music_event_out_proxy))
   \<and> fst (connect_sender \<lparr>rport = 0, stamp = 0, payload = ()\<rparr> (2 :: 64 word)
        (configure ''music_event_out_proxy'' ''spikes_out'' 4)) = Inr 2"
proof -
  let ?n = "configure ''music_event_out_proxy'' ''spikes_out'' 4 :: unit music_event_out_proxy"
  have u: "\<not> published (S ?n)"
    by (simp add: configure_def)
  from connect_sender_returns_receptor_type [OF u, of "\<lparr>rport = 0, stamp = 0, payload = ()\<rparr>" "2 :: 64 word"]
  show ?thesis using u by blast
qed

text \<open>
  C7: on a port that is not published, handle fails with UnconfiguredPort and changes
  nothing; on a published port it succeeds, and the event is in the result of the next
  drain, whatever calls but drain come between.
\<close>

theorem handle_requires_publish:
  "(\<not> published (S n) \<longrightarrow> handle e n = (Inl UnconfiguredPort, n))
   \<and> (published (S n) \<longrightarrow>
        fst (handle e n) = Inr ()
        \<and> (Drain \<notin> set cs \<longrightarrow> e \<in> set (fst (drain (snd (run cs (snd (handle e n))))))))"
proof (intro conjI impI)
  assume "\<not> published (S n)"
  then show "handle e n = (Inl UnconfiguredPort, n)"
    by (simp add: handle_def)
next
  assume p: "published (S n)"
  then show "fst (handle e n) = Inr ()"
    by (simp add: handle_def)
  assume d: "Drain \<notin> set cs"
  from p have "e \<in> set (buffer (snd (handle e n)))"
    by (simp add: handle_def)
  then have "e \<in> set (buffer (snd (run cs (snd (handle e n)))))"
    using d by (rule run_buffer_mem)
  then show "e \<in> set (fst (drain (snd (run cs (snd (handle e n))))))"
    by (simp add: drain_def)
qed

theorem handle_requires_publish_witness:
  "handle \<lparr>rport = 0, stamp = 10, payload = ()\<rparr>
      (configure ''music_event_out_proxy'' ''spikes_out'' 4)
     = (Inl UnconfiguredPort, configure ''music_event_out_proxy'' ''spikes_out'' 4)
   \<and> fst (handle \<lparr>rport = 0, stamp = 10, payload = ()\<rparr>
        (snd (publish (configure ''music_event_out_proxy'' ''spikes_out'' 4)))) = Inr ()
   \<and> \<lparr>rport = 0, stamp = 10, payload = ()\<rparr> \<in> set (fst (drain (snd (run
        ([Handle \<lparr>rport = 1, stamp = 11, payload = ()\<rparr>, Publish]
           :: (unit, 64 word, nat, 64 word) call list)
        (snd (handle \<lparr>rport = 0, stamp = 10, payload = ()\<rparr>
           (snd (publish (configure ''music_event_out_proxy'' ''spikes_out'' 4))))))))) "
proof -
  let ?n = "configure ''music_event_out_proxy'' ''spikes_out'' 4 :: unit music_event_out_proxy"
  let ?e = "\<lparr>rport = 0, stamp = 10, payload = ()\<rparr>"
  let ?cs = "[Handle \<lparr>rport = 1, stamp = 11, payload = ()\<rparr>, Publish]
           :: (unit, 64 word, nat, 64 word) call list"
  have u: "\<not> published (S ?n)"
    by (simp add: configure_def)
  have p: "published (S (snd (publish ?n)))"
    by (simp add: configure_def publish_def)
  have d: "Drain \<notin> set ?cs"
    by simp
  from handle_requires_publish [of ?n ?e] u
  have "handle ?e ?n = (Inl UnconfiguredPort, ?n)"
    by blast
  moreover from handle_requires_publish [of "snd (publish ?n)" ?e ?cs] p d
  have "fst (handle ?e (snd (publish ?n))) = Inr ()
    \<and> ?e \<in> set (fst (drain (snd (run ?cs (snd (handle ?e (snd (publish ?n))))))))"
    by blast
  ultimately show ?thesis by blast
qed

text \<open>
  C8: on a published port, after a drain and then any calls but drain, the next drain
  returns exactly the events delivered in between, in delivery order (for a sequence
  of pushes es, each of which succeeds: exactly es), and leaves the buffer empty; a
  drain right after it returns nothing, so no event is returned by two drains.
\<close>

theorem drain_exactly_pushed:
  assumes "published (S n)" and "Drain \<notin> set cs"
  shows "fst (drain (snd (run cs (snd (drain n))))) = pushed cs
   \<and> (cs = map Handle es \<longrightarrow>
        fst (run cs (snd (drain n))) = map (\<lambda>e. Inr Done) es
        \<and> fst (drain (snd (run cs (snd (drain n))))) = es)
   \<and> buffer (snd (drain (snd (run cs (snd (drain n)))))) = []
   \<and> fst (drain (snd (drain (snd (run cs (snd (drain n))))))) = []"
proof (intro conjI impI)
  from assms(1) have p: "published (S (snd (drain n)))" and "buffer (snd (drain n)) = []"
    by (simp_all add: drain_def)
  with assms(2) have "buffer (snd (run cs (snd (drain n)))) = pushed cs"
    by (simp add: run_buffer)
  then show d: "fst (drain (snd (run cs (snd (drain n))))) = pushed cs"
    by (simp add: drain_def)
  show "buffer (snd (drain (snd (run cs (snd (drain n)))))) = []"
    and "fst (drain (snd (drain (snd (run cs (snd (drain n))))))) = []"
    by (simp_all add: drain_def)
  assume cs: "cs = map Handle es"
  from p show "fst (run cs (snd (drain n))) = map (\<lambda>e. Inr Done) es"
    unfolding cs by (rule run_pushes_replies)
  have "pushed cs = es"
    unfolding cs by (induction es) simp_all
  with d show "fst (drain (snd (run cs (snd (drain n))))) = es"
    by simp
qed

theorem drain_exactly_pushed_witness:
  "published (S (snd (handle \<lparr>rport = 0, stamp = 10, payload = ()\<rparr>
      (snd (publish (configure ''music_event_out_proxy'' ''spikes_out'' 4
         :: unit music_event_out_proxy))))))
   \<and> fst (drain (snd (run
        ([Handle \<lparr>rport = 1, stamp = 11, payload = ()\<rparr>,
          Handle \<lparr>rport = 0, stamp = 12, payload = ()\<rparr>,
          Handle \<lparr>rport = 1, stamp = 11, payload = ()\<rparr>]
           :: (unit, 64 word, nat, 64 word) call list)
        (snd (drain (snd (handle \<lparr>rport = 0, stamp = 10, payload = ()\<rparr>
           (snd (publish (configure ''music_event_out_proxy'' ''spikes_out'' 4))))))))))
      = [\<lparr>rport = 1, stamp = 11, payload = ()\<rparr>,
         \<lparr>rport = 0, stamp = 12, payload = ()\<rparr>,
         \<lparr>rport = 1, stamp = 11, payload = ()\<rparr>]"
proof -
  let ?n = "snd (handle \<lparr>rport = 0, stamp = 10, payload = ()\<rparr>
           (snd (publish (configure ''music_event_out_proxy'' ''spikes_out'' 4
      :: unit music_event_out_proxy))))"
  let ?es = "[\<lparr>rport = 1, stamp = 11, payload = ()\<rparr>,
         \<lparr>rport = 0, stamp = 12, payload = ()\<rparr>,
         \<lparr>rport = 1, stamp = 11, payload = ()\<rparr>]"
  let ?cs = "[Handle \<lparr>rport = 1, stamp = 11, payload = ()\<rparr>,
          Handle \<lparr>rport = 0, stamp = 12, payload = ()\<rparr>,
          Handle \<lparr>rport = 1, stamp = 11, payload = ()\<rparr>]
           :: (unit, 64 word, nat, 64 word) call list"
  have p: "published (S ?n)"
    by (simp add: configure_def publish_def handle_def)
  have d: "Drain \<notin> set ?cs"
    by simp
  have c: "?cs = map Handle ?es"
    by simp
  from drain_exactly_pushed [OF p d, of ?es] c
  have "fst (drain (snd (run ?cs (snd (drain ?n))))) = ?es"
    by blast
  with p show ?thesis by blast
qed

text \<open>
  C9: update does nothing: whatever the time and the two step arguments, the
  parameters (port name), the state (published flag, port width) and the variables
  (index map, permutation index) are what they were, and so is the whole object.
\<close>

theorem update_no_op:
  "update t from_step to_step n = n
   \<and> port_name (P (update t from_step to_step n)) = port_name (P n)
   \<and> published (S (update t from_step to_step n)) = published (S n)
   \<and> port_width (S (update t from_step to_step n)) = port_width (S n)
   \<and> index_map (V (update t from_step to_step n)) = index_map (V n)
   \<and> music_perm_ind (V (update t from_step to_step n)) = music_perm_ind (V n)"
  by (simp add: update_def)

text \<open>
  C10: get\_spiketime\_ms after set\_spiketime\_ms(st) returns st, for every node and
  every value st; a freshly constructed node returns -1.0; the copy constructor
  preserves the stored last-spike time.
\<close>

theorem spiketime_ms_roundtrip:
  "get_spiketime_ms (set_spiketime_ms st node) = st
   \<and> get_spiketime_ms (Archiving_Node_new new_Network) = Finite (- 1)
   \<and> get_spiketime_ms (Archiving_Node_copy node) = get_spiketime_ms node"
  by (simp add: get_spiketime_ms_def set_spiketime_ms_def Archiving_Node_new_def
      Archiving_Node_copy_def)

end
